theory Spec2Isabelle
  imports Complex_Main
begin

section \<open>TriangulationFactor: a unary reprojection factor on a 3D point\<close>

text \<open>
  A shallow embedding of \<^verbatim>\<open>gtsam/geometry/TriangulationFactor.h\<close>.  The class template
  \<^verbatim>\<open>TriangulationFactor\<close> (parameter \<^verbatim>\<open>CALIBRATION\<close>) derives from the unary
  \<^verbatim>\<open>NoiseModelFactor1\<close> on a \<^verbatim>\<open>Point3\<close>; it keeps a camera, a 2D measurement and two
  flags, and it overrides \<^verbatim>\<open>clone\<close>, \<^verbatim>\<open>equals\<close>, \<^verbatim>\<open>evaluateError\<close> and
  \<^verbatim>\<open>linearize\<close>.

  Conventions of the embedding:
  \<^item> a C++ \<^verbatim>\<open>double\<close> that the header computes with, or keeps in an Eigen vector or
    matrix, is a value of the type \<open>double\<close> below: a finite value, an infinity or NaN,
    with the overflow of IEEE 754;
  \<^item> the coordinates inside \<^verbatim>\<open>Point2\<close> and \<^verbatim>\<open>Point3\<close> and the tolerances of \<^verbatim>\<open>equals\<close> are
    held, subtracted and compared by classes outside the header only; they are reals;
  \<^item> a thrown exception is the \<open>Inl\<close> branch of a sum, a returned value the \<open>Inr\<close> branch;
  \<^item> an output parameter, the text written to \<^verbatim>\<open>std::cout\<close> and the \<^verbatim>\<open>mutable\<close> members
    are returned next to the result, so that they are visible also when the call throws;
  \<^item> a smart pointer that may be null is an \<^typ>\<open>'a option\<close>;
  \<^item> the classes the header only uses (camera, noise model, base factor, key formatter)
    are parameters of the model, collected in one record of collaborators.

  The default constructor (it leaves the factor without a key, for deserialisation),
  \<^verbatim>\<open>print\<close> and \<^verbatim>\<open>serialize\<close> are not modelled; the accessors \<^verbatim>\<open>measured()\<close>,
  \<^verbatim>\<open>throwCheirality()\<close> and \<^verbatim>\<open>verboseCheirality()\<close> are the fields of the record.
\<close>

subsection \<open>Data\<close>

text \<open>A \<^verbatim>\<open>Key\<close> is an unsigned index naming a variable; the header does no arithmetic on it.\<close>

type_synonym Key = nat

text \<open>
  An IEEE 754 binary64 number: a finite value, one of the two infinities, or NaN.  A
  finite value is kept as the real it stands for; signed zeros are one value.
\<close>

datatype double = Finite real | PlusInfinity | MinusInfinity | NaN

fun isfinite :: "double \<Rightarrow> bool" where
  "isfinite (Finite a) = True"
| "isfinite PlusInfinity = False"
| "isfinite MinusInfinity = False"
| "isfinite NaN = False"

text \<open>
  \<^verbatim>\<open>DBL_MAX\<close> is the largest finite binary64 number, \<open>(2 - 2^-52) * 2^1023\<close>.  Rounding to
  nearest takes an exact result to an infinity when its magnitude reaches \<^verbatim>\<open>DBL_MAX\<close> plus
  half a unit in the last place, \<open>2^1024 - 2^970\<close>.  Below that the model keeps the exact
  result: the rounding of a finite result and underflow are not modelled.
\<close>

definition DBL_MAX :: real where
  "DBL_MAX = 2 ^ 1024 - 2 ^ 971"

definition overflow_threshold :: real where
  "overflow_threshold = 2 ^ 1024 - 2 ^ 970"

definition infinity_of_sign :: "real \<Rightarrow> double" where
  "infinity_of_sign s = (if s = 0 then NaN else if 0 < s then PlusInfinity else MinusInfinity)"

definition double_of_exact :: "real \<Rightarrow> double" where
  "double_of_exact p = (if overflow_threshold \<le> \<bar>p\<bar> then infinity_of_sign p else Finite p)"

fun sign_of :: "double \<Rightarrow> real" where
  "sign_of (Finite a) = sgn a"
| "sign_of PlusInfinity = 1"
| "sign_of MinusInfinity = - 1"
| "sign_of NaN = 0"

text \<open>
  The product of two doubles: NaN when an operand is NaN or when an infinity meets zero;
  an infinity with the product of the signs when an operand is infinite; otherwise the
  exact product, or an infinity when that overflows.  The two products the header
  forms, \<open>1.0 * 2.0\<close> and \<open>2.0 * fx\<close>, are exact in binary64 unless they overflow, so
  nothing is lost there by not rounding.  Unary minus is exact.
\<close>

fun double_times :: "double \<Rightarrow> double \<Rightarrow> double" where
  "double_times (Finite a) (Finite b) = double_of_exact (a * b)"
| "double_times NaN y = NaN"
| "double_times x NaN = NaN"
| "double_times x y = infinity_of_sign (sign_of x * sign_of y)"

fun double_uminus :: "double \<Rightarrow> double" where
  "double_uminus (Finite a) = Finite (- a)"
| "double_uminus PlusInfinity = MinusInfinity"
| "double_uminus MinusInfinity = PlusInfinity"
| "double_uminus NaN = NaN"

text \<open>\<^verbatim>\<open>Vector\<close> and \<^verbatim>\<open>Matrix\<close> are the dynamically sized Eigen types; a matrix is the list
  of its rows.\<close>

type_synonym Vector = "double list"

type_synonym Matrix = "double list list"

datatype Point2 = Point2 real real

datatype Point3 = Point3 real real real

text \<open>
  The exceptions that can cross this header: the camera's \<^verbatim>\<open>CheiralityException\<close> (with its
  \<^verbatim>\<open>what()\<close> text), the values container's lookup failure and the constructor's
  \<^verbatim>\<open>std::invalid_argument\<close>.
\<close>

datatype exception =
    CheiralityException string
  | ValuesKeyDoesNotExist Key
  | invalid_argument string

text \<open>
  Modelled from the spec: \<^verbatim>\<open>Values\<close> is declared outside the header.  The spec gives
  \<^verbatim>\<open>valuesStore.lookup(key) -> Point3: fails if key absent\<close>; the store is a finite map
  and \<^verbatim>\<open>at\<close> (here \<open>Values_at\<close>) raises the lookup failure, carrying the key, when the key is not in it.
\<close>

type_synonym Values = "Key \<rightharpoonup> Point3"

definition Values_at :: "Values \<Rightarrow> Key \<Rightarrow> exception + Point3" where
  "Values_at x j = (case x j of None \<Rightarrow> Inl (ValuesKeyDoesNotExist j) | Some p \<Rightarrow> Inr p)"

text \<open>
  Modelled from the spec: \<^verbatim>\<open>Point2\<close> is declared outside the header.  The spec's
  \<^verbatim>\<open>error = project(pointValue) - measurement, returned as a 2-component vector\<close> fixes
  the two operations the header uses: componentwise difference and \<^verbatim>\<open>vector()\<close>, which
  gives the two coordinates as an Eigen vector.
\<close>

fun Point2_minus :: "Point2 \<Rightarrow> Point2 \<Rightarrow> Point2" where
  "Point2_minus (Point2 u v) (Point2 u' v') = Point2 (u - u') (v - v')"

fun vector :: "Point2 \<Rightarrow> Vector" where
  "vector (Point2 u v) = [Finite u, Finite v]"

text \<open>The linear algebra the header calls: \<^verbatim>\<open>ones(n)\<close>, vector times scalar (the double
  product in every component), unary minus, the constant \<^verbatim>\<open>Z_2x3\<close> and \<^verbatim>\<open>resize\<close> (whose
  fresh entries are unspecified in Eigen; the model takes zeros, and the header
  overwrites them before it reads them).\<close>

definition ones :: "nat \<Rightarrow> Vector" where
  "ones n = replicate n (Finite 1)"

definition Vector_times :: "Vector \<Rightarrow> double \<Rightarrow> Vector" where
  "Vector_times v s = map (\<lambda>e. double_times e s) v"

definition Vector_uminus :: "Vector \<Rightarrow> Vector" where
  "Vector_uminus v = map double_uminus v"

definition zeros :: "nat \<Rightarrow> nat \<Rightarrow> Matrix" where
  "zeros m n = replicate m (replicate n (Finite 0))"

definition Z_2x3 :: Matrix where
  "Z_2x3 = zeros 2 3"

definition column :: "Vector \<Rightarrow> Matrix" where
  "column v = map (\<lambda>e. [e]) v"

text \<open>
  Modelled from the spec: \<^verbatim>\<open>VerticalBlockMatrix\<close> is declared outside the header; the spec
  calls it the block-structured output.  The model keeps the number of rows and the list
  of blocks, each a matrix; \<^verbatim>\<open>Ab(i) = M\<close> replaces block \<open>i\<close>.  A default-constructed one has
  no rows and no blocks.
\<close>

record VerticalBlockMatrix =
  rows :: nat
  blocks :: "Matrix list"

definition VerticalBlockMatrix_empty :: VerticalBlockMatrix where
  "VerticalBlockMatrix_empty = \<lparr>rows = 0, blocks = []\<rparr>"

definition VerticalBlockMatrix_sized :: "nat list \<Rightarrow> nat \<Rightarrow> bool \<Rightarrow> VerticalBlockMatrix" where
  "VerticalBlockMatrix_sized dimensions height appendOneDimension =
     \<lparr>rows = height,
      blocks = map (zeros height) (dimensions @ (if appendOneDimension then [1] else []))\<rparr>"

definition set_block :: "VerticalBlockMatrix \<Rightarrow> nat \<Rightarrow> Matrix \<Rightarrow> VerticalBlockMatrix" where
  "set_block M i B = M\<lparr>blocks := (blocks M)[i := B]\<rparr>"

text \<open>
  Modelled from the spec: \<^verbatim>\<open>JacobianFactor\<close> is declared outside the header; the spec's
  block-structured linear factor tagged with the variable key.  Its constructor copies
  the keys and the augmented matrix it is given.
\<close>

record JacobianFactor =
  jacobian_keys :: "Key list"
  jacobian_Ab :: VerticalBlockMatrix

definition JacobianFactor_of :: "Key list \<Rightarrow> VerticalBlockMatrix \<Rightarrow> JacobianFactor" where
  "JacobianFactor_of ks M = \<lparr>jacobian_keys = ks, jacobian_Ab = M\<rparr>"

subsection \<open>The factor object\<close>

text \<open>
  The members of the class, base class first: \<^verbatim>\<open>noiseModel_\<close> and \<^verbatim>\<open>keys_\<close> of the base,
  then \<^verbatim>\<open>camera_\<close>, \<^verbatim>\<open>measured_\<close>, \<^verbatim>\<open>throwCheirality_\<close>, \<^verbatim>\<open>verboseCheirality_\<close> and the
  mutable scratch members \<^verbatim>\<open>Ab\<close>, \<^verbatim>\<open>A\<close>, \<^verbatim>\<open>b\<close>.  A field is named as its accessor (an
  identifier cannot end in an underscore here), the scratch members carry a prefix.
\<close>

record ('cam, 'nm) TriangulationFactor =
  noiseModel :: "'nm option"
  keys :: "Key list"
  camera :: 'cam
  measured :: Point2
  throwCheirality :: bool
  verboseCheirality :: bool
  scratch_Ab :: VerticalBlockMatrix
  scratch_A :: Matrix
  scratch_b :: Vector

text \<open>\<^verbatim>\<open>key()\<close> of the unary base class is \<^verbatim>\<open>keys_[0]\<close>; the constructor below stores exactly
  one key, and on a factor without keys the C++ is undefined.\<close>

definition key :: "('cam, 'nm) TriangulationFactor \<Rightarrow> Key" where
  "key f = keys f ! 0"

text \<open>
  A reference to a \<^verbatim>\<open>NonlinearFactor\<close> has a dynamic type: the class \<^verbatim>\<open>This\<close> (this
  instance of the template) or any other factor class, among them the instances of the
  template at another calibration.  \<^verbatim>\<open>dynamic_cast\<close> to \<^verbatim>\<open>This\<close> is null on the others.
\<close>

datatype ('cam, 'nm, 'other) NonlinearFactor =
    This "('cam, 'nm) TriangulationFactor"
  | Other 'other

fun dynamic_cast_This ::
  "('cam, 'nm, 'other) NonlinearFactor \<Rightarrow> ('cam, 'nm) TriangulationFactor option" where
  "dynamic_cast_This (This e) = Some e"
| "dynamic_cast_This (Other q) = None"

subsection \<open>Collaborators\<close>

text \<open>
  What the header calls and does not define:
  \<^item> \<open>project\<close>: \<^verbatim>\<open>camera_.project(point, boost::none, H, boost::none)\<close>, the pixel and the
    2x3 derivative with respect to the point, or an exception;
  \<^item> \<open>calibration_fx\<close>: \<^verbatim>\<open>camera_.calibration().fx()\<close>, a \<^verbatim>\<open>double\<close> that no code of the
    header checks;
  \<^item> \<open>camera_equals\<close>, \<open>Point2_equals\<close>: the \<^verbatim>\<open>equals\<close> of the camera and of the point, with
    a tolerance;
  \<^item> \<open>dim\<close>, \<open>WhitenSystem\<close>: of the noise model; \<^verbatim>\<open>WhitenSystem(A, b)\<close> rewrites both arguments
    in place, the model returns the new pair;
  \<^item> \<open>active\<close>, \<open>Base_equals\<close>: the virtual \<^verbatim>\<open>active\<close> and the \<^verbatim>\<open>equals\<close> of the base class;
  \<^item> \<open>DefaultKeyFormatter\<close>: the text of a key.
\<close>

record ('cam, 'nm, 'other) collaborators =
  project :: "'cam \<Rightarrow> Point3 \<Rightarrow> exception + Point2 \<times> Matrix"
  calibration_fx :: "'cam \<Rightarrow> double"
  camera_equals :: "'cam \<Rightarrow> 'cam \<Rightarrow> real \<Rightarrow> bool"
  Point2_equals :: "Point2 \<Rightarrow> Point2 \<Rightarrow> real \<Rightarrow> bool"
  dim :: "'nm \<Rightarrow> nat"
  WhitenSystem :: "'nm \<Rightarrow> Matrix \<Rightarrow> Vector \<Rightarrow> Matrix \<times> Vector"
  active :: "('cam, 'nm) TriangulationFactor \<Rightarrow> Values \<Rightarrow> bool"
  Base_equals ::
    "('cam, 'nm) TriangulationFactor \<Rightarrow> ('cam, 'nm, 'other) NonlinearFactor \<Rightarrow> real \<Rightarrow> bool"
  DefaultKeyFormatter :: "Key \<Rightarrow> string"

subsection \<open>Construction\<close>

text \<open>
  The constructor with exception-handling flags.  The base and the members are
  initialised, then a noise model that is present and not of dimension 2 makes the
  constructor throw; an object exists only when it returns.  The two flags default to
  false in the header.
\<close>

definition TriangulationFactor_new ::
  "('cam, 'nm, 'other) collaborators \<Rightarrow> 'cam \<Rightarrow> Point2 \<Rightarrow> 'nm option \<Rightarrow> Key \<Rightarrow> bool \<Rightarrow> bool
     \<Rightarrow> exception + ('cam, 'nm) TriangulationFactor" where
  "TriangulationFactor_new ext cam z model pointKey throwC verboseC =
     (case model of
        None \<Rightarrow> Inr \<lparr>noiseModel = model, keys = [pointKey], camera = cam, measured = z,
                     throwCheirality = throwC, verboseCheirality = verboseC,
                     scratch_Ab = VerticalBlockMatrix_empty, scratch_A = [], scratch_b = []\<rparr>
      | Some m \<Rightarrow>
          if dim ext m \<noteq> 2
          then Inl (invalid_argument
                 ''TriangulationFactor must be created with 2-dimensional noise model.'')
          else Inr \<lparr>noiseModel = model, keys = [pointKey], camera = cam, measured = z,
                     throwCheirality = throwC, verboseCheirality = verboseC,
                     scratch_Ab = VerticalBlockMatrix_empty, scratch_A = [], scratch_b = []\<rparr>)"

subsection \<open>evaluateError\<close>

text \<open>
  What a call of \<^verbatim>\<open>evaluateError(point, H2)\<close> leaves behind: the matrix written through
  \<^verbatim>\<open>H2\<close> (\<open>None\<close> when the caller passed none, or when nothing was written), the text sent
  to \<^verbatim>\<open>std::cout\<close>, and the returned vector or the exception thrown.
\<close>

record evaluateError_outcome =
  H2_written :: "Matrix option"
  cout :: string
  returned :: "exception + Vector"

definition endl :: string where
  "endl = [CHR 0x0A]"

text \<open>
  The body: \<^verbatim>\<open>project\<close> fills \<^verbatim>\<open>H2\<close> and the difference to the measurement is returned.
  The handler of \<^verbatim>\<open>CheiralityException\<close> runs its three statements in order (zero the
  requested Jacobian, print when verbose, rethrow when asked) and otherwise returns
  \<^verbatim>\<open>ones(2) * 2.0 * camera_.calibration().fx()\<close>.  Another exception is not caught.
\<close>

definition evaluateError ::
  "('cam, 'nm, 'other) collaborators \<Rightarrow> ('cam, 'nm) TriangulationFactor \<Rightarrow> Point3 \<Rightarrow> bool
     \<Rightarrow> evaluateError_outcome" where
  "evaluateError ext f point H2 =
     (case project ext (camera f) point of
        Inr (uv, Dpoint) \<Rightarrow>
          \<lparr>H2_written = (if H2 then Some Dpoint else None),
           cout = [],
           returned = Inr (vector (Point2_minus uv (measured f)))\<rparr>
      | Inl e \<Rightarrow>
          (case e of
             CheiralityException what \<Rightarrow>
               \<lparr>H2_written = (if H2 then Some Z_2x3 else None),
                cout = (if verboseCheirality f
                        then what @ '': Landmark '' @ DefaultKeyFormatter ext (key f)
                               @ '' moved behind camera'' @ endl
                        else []),
                returned = (if throwCheirality f then Inl e
                            else Inr (Vector_times (Vector_times (ones 2) (Finite 2))
                                        (calibration_fx ext (camera f))))\<rparr>
           | _ \<Rightarrow> \<lparr>H2_written = None, cout = [], returned = Inl e\<rparr>))"

subsection \<open>linearize\<close>

text \<open>
  What a call of \<^verbatim>\<open>linearize(x)\<close> leaves behind: the factor with its scratch members as
  the call left them, the number of calls of \<^verbatim>\<open>camera_.project\<close> it made (a count kept by
  the model, one step at the call site), and the result: an exception, a null pointer
  (\<open>None\<close>) or a new \<^verbatim>\<open>JacobianFactor\<close>.
\<close>

record ('cam, 'nm) linearize_outcome =
  self :: "('cam, 'nm) TriangulationFactor"
  projections :: nat
  result :: "exception + JacobianFactor option"

text \<open>The allocation on the first call: \<^verbatim>\<open>if (Ab.rows() == 0) { ... }\<close>.\<close>

definition allocate :: "('cam, 'nm) TriangulationFactor \<Rightarrow> ('cam, 'nm) TriangulationFactor" where
  "allocate f =
     (if rows (scratch_Ab f) = 0
      then f\<lparr>scratch_Ab := VerticalBlockMatrix_sized [3] 2 True,
             scratch_A := zeros 2 3,
             scratch_b := replicate 2 (Finite 0)\<rparr>
      else f)"

text \<open>
  The statements in order: the activity test, the allocation, the lookup of the point,
  the call of \<^verbatim>\<open>project\<close> that fills \<^verbatim>\<open>A\<close> and gives \<^verbatim>\<open>b\<close>, the whitening when a noise model
  is present, the two block assignments, the construction of the result from \<^verbatim>\<open>keys_\<close>
  and \<^verbatim>\<open>Ab\<close>.  Neither the lookup nor the projection stands in a \<^verbatim>\<open>try\<close> block: what they
  throw leaves the function, with the scratch members allocated and not yet assigned
  (what \<^verbatim>\<open>project\<close> may have written into \<^verbatim>\<open>A\<close> before it threw is the camera's affair and is
  not modelled).
\<close>

definition linearize ::
  "('cam, 'nm, 'other) collaborators \<Rightarrow> ('cam, 'nm) TriangulationFactor \<Rightarrow> Values
     \<Rightarrow> ('cam, 'nm) linearize_outcome" where
  "linearize ext f x =
     (if \<not> active ext f x then \<lparr>self = f, projections = 0, result = Inr None\<rparr>
      else
        let f1 = allocate f in
        (case Values_at x (key f1) of
           Inl e \<Rightarrow> \<lparr>self = f1, projections = 0, result = Inl e\<rparr>
         | Inr point \<Rightarrow>
             (case project ext (camera f1) point of
                Inl e \<Rightarrow> \<lparr>self = f1, projections = 1, result = Inl e\<rparr>
              | Inr (uv, Dpoint) \<Rightarrow>
                  let b0 = Vector_uminus (vector (Point2_minus uv (measured f1)));
                      (A1, b1) = (case noiseModel f1 of
                                    None \<Rightarrow> (Dpoint, b0)
                                  | Some m \<Rightarrow> WhitenSystem ext m Dpoint b0);
                      Ab1 = set_block (set_block (scratch_Ab f1) 0 A1) 1 (column b1)
                  in \<lparr>self = f1\<lparr>scratch_Ab := Ab1, scratch_A := A1, scratch_b := b1\<rparr>,
                      projections = 1,
                      result = Inr (Some (JacobianFactor_of (keys f1) Ab1))\<rparr>)))"

subsection \<open>equals and clone\<close>

text \<open>\<^verbatim>\<open>equals(p, tol)\<close>: the cast must succeed, then the base, the cameras and the
  measurements must compare equal.  The default tolerance is \<^verbatim>\<open>1e-9\<close>.\<close>

definition default_tol :: real where
  "default_tol = 1 / 10 ^ 9"

definition equals ::
  "('cam, 'nm, 'other) collaborators \<Rightarrow> ('cam, 'nm) TriangulationFactor
     \<Rightarrow> ('cam, 'nm, 'other) NonlinearFactor \<Rightarrow> real \<Rightarrow> bool" where
  "equals ext f p tol =
     (case dynamic_cast_This p of
        None \<Rightarrow> False
      | Some e \<Rightarrow> Base_equals ext f p tol
                 \<and> camera_equals ext (camera f) (camera e) tol
                 \<and> Point2_equals ext (measured f) (measured e) tol)"

text \<open>
  Objects that are reached through pointers live in a heap: the list of the allocated
  factors, an address being an index into it, valid when it is below the length of the
  list.  \<^verbatim>\<open>new This(*this)\<close> copy-constructs at a fresh address: every member is copied, the
  Eigen scratch members by value (the noise model is a shared pointer, which the header
  never writes through, so the model keeps it as a value).  A method called through a
  pointer writes the object back to its own address.
\<close>

type_synonym ('cam, 'nm) heap = "('cam, 'nm) TriangulationFactor list"

definition clone :: "('cam, 'nm) heap \<Rightarrow> nat \<Rightarrow> ('cam, 'nm) heap \<times> nat" where
  "clone h this = (h @ [h ! this], length h)"

definition linearize_at ::
  "('cam, 'nm, 'other) collaborators \<Rightarrow> ('cam, 'nm) heap \<Rightarrow> nat \<Rightarrow> Values
     \<Rightarrow> ('cam, 'nm) heap \<times> (exception + JacobianFactor option)" where
  "linearize_at ext h this x =
     (let out = linearize ext (h ! this) x in (h[this := self out], result out))"

subsection \<open>A concrete scene\<close>

text \<open>
  Modelled from the spec: a camera, a noise model and a base class to run the header on.
  The camera is the one of the spec's scenarios: at the origin, looking down \<open>+z\<close>, with
  principal point \<open>(0,0)\<close>, so a camera is its focal length and the pixel of a point is
  \<open>point.xy / point.z\<close> times the focal length; a point that is not in front of the
  camera raises \<^verbatim>\<open>CheiralityException\<close>.  The focal length is a finite double.  The noise
  model is isotropic (a dimension and a standard deviation) and whitening divides the
  finite entries by the standard deviation.  The base class compares keys and noise
  models.  The general theorems do not depend on this scene; it is the concrete input of
  their instances.
\<close>

fun pinhole_project :: "real \<Rightarrow> Point3 \<Rightarrow> exception + Point2 \<times> Matrix" where
  "pinhole_project fl (Point3 X Y Z) =
     (if Z \<le> 0 then Inl (CheiralityException ''CheiralityException'')
      else Inr (Point2 (fl * X / Z) (fl * Y / Z),
                map (map Finite)
                  [[fl / Z, 0, - (fl * X / (Z * Z))],
                   [0, fl / Z, - (fl * Y / (Z * Z))]]))"

fun Point2_within :: "Point2 \<Rightarrow> Point2 \<Rightarrow> real \<Rightarrow> bool" where
  "Point2_within (Point2 u v) (Point2 u' v') tol = (\<bar>u - u'\<bar> < tol \<and> \<bar>v - v'\<bar> < tol)"

datatype Isotropic = Isotropic nat real

fun Isotropic_dim :: "Isotropic \<Rightarrow> nat" where
  "Isotropic_dim (Isotropic n sigma) = n"

fun scaled :: "real \<Rightarrow> double \<Rightarrow> double" where
  "scaled sigma (Finite a) = Finite (a / sigma)"
| "scaled sigma d = d"

fun Isotropic_WhitenSystem :: "Isotropic \<Rightarrow> Matrix \<Rightarrow> Vector \<Rightarrow> Matrix \<times> Vector" where
  "Isotropic_WhitenSystem (Isotropic n sigma) M v =
     (map (map (scaled sigma)) M, map (scaled sigma) v)"

definition scene_Base_equals ::
  "(real, Isotropic) TriangulationFactor \<Rightarrow> (real, Isotropic, unit) NonlinearFactor \<Rightarrow> real
     \<Rightarrow> bool" where
  "scene_Base_equals f p tol =
     (case dynamic_cast_This p of
        None \<Rightarrow> False
      | Some e \<Rightarrow> keys f = keys e \<and> noiseModel f = noiseModel e)"

definition scene :: "bool \<Rightarrow> (real, Isotropic, unit) collaborators" where
  "scene is_active =
     \<lparr>project = pinhole_project,
      calibration_fx = Finite,
      camera_equals = (\<lambda>c c' tol. \<bar>c - c'\<bar> < tol),
      Point2_equals = Point2_within,
      dim = Isotropic_dim,
      WhitenSystem = Isotropic_WhitenSystem,
      active = (\<lambda>f x. is_active),
      Base_equals = scene_Base_equals,
      DefaultKeyFormatter = (\<lambda>j. if j = 7 then ''x7'' else ''x'')\<rparr>"

text \<open>The factor the constructor builds in this scene: unit focal length, measurement
  \<open>(0,0)\<close>, key 7.\<close>

definition scene_factor :: "Isotropic option \<Rightarrow> bool \<Rightarrow> bool \<Rightarrow> (real, Isotropic) TriangulationFactor" where
  "scene_factor model throwC verboseC =
     \<lparr>noiseModel = model, keys = [7], camera = 1, measured = Point2 0 0,
      throwCheirality = throwC, verboseCheirality = verboseC,
      scratch_Ab = VerticalBlockMatrix_empty, scratch_A = [], scratch_b = []\<rparr>"

subsection \<open>The shape of the scratch members\<close>

text \<open>The block matrix is either not yet allocated (no rows) or has two rows and its two
  blocks: what the constructor leaves and what \<^verbatim>\<open>linearize\<close> keeps.\<close>

definition scratch_shaped :: "('cam, 'nm) TriangulationFactor \<Rightarrow> bool" where
  "scratch_shaped f =
     (rows (scratch_Ab f) = 0
      \<or> (rows (scratch_Ab f) = 2 \<and> length (blocks (scratch_Ab f)) = 2))"

section \<open>Properties\<close>

subsection \<open>Facts about the concrete scene\<close>

lemma scene_project_front:
  "project (scene a) (camera (scene_factor model tc vc)) (Point3 1 1 5)
     = Inr (Point2 (1 / 5) (1 / 5),
         map (map Finite) [[1 / 5, 0, - (1 / 25)], [0, 1 / 5, - (1 / 25)]])"
  by (simp add: scene_def scene_factor_def)

lemma scene_project_behind:
  "project (scene a) (camera (scene_factor model tc vc)) (Point3 0 0 (- 5))
     = Inl (CheiralityException ''CheiralityException'')"
  by (simp add: scene_def scene_factor_def)

lemma scene_factor_fields:
  "throwCheirality (scene_factor model tc vc) = tc"
  "verboseCheirality (scene_factor model tc vc) = vc"
  "measured (scene_factor model tc vc) = Point2 0 0"
  "camera (scene_factor model tc vc) = 1"
  "keys (scene_factor model tc vc) = [7]"
  "key (scene_factor model tc vc) = 7"
  "noiseModel (scene_factor model tc vc) = model"
  "scratch_Ab (scene_factor model tc vc) = VerticalBlockMatrix_empty"
  "scratch_A (scene_factor model tc vc) = []"
  "scratch_b (scene_factor model tc vc) = []"
  by (simp_all add: scene_factor_def key_def)

lemma scene_fields:
  "calibration_fx (scene a) = Finite"
  "active (scene a) = (\<lambda>f x. a)"
  "DefaultKeyFormatter (scene a) 7 = ''x7''"
  "dim (scene a) = Isotropic_dim"
  "WhitenSystem (scene a) = Isotropic_WhitenSystem"
  "camera_equals (scene a) = (\<lambda>c c' tol. \<bar>c - c'\<bar> < tol)"
  "Point2_equals (scene a) = Point2_within"
  "Base_equals (scene a) = scene_Base_equals"
  by (simp_all add: scene_def)

text \<open>The scene's factor is the one the constructor returns there.\<close>

lemma scene_factor_constructed:
  "TriangulationFactor_new (scene a) 1 (Point2 0 0) None 7 tc vc = Inr (scene_factor None tc vc)"
  by (simp add: TriangulationFactor_new_def scene_factor_def)

subsection \<open>evaluateError\<close>

text \<open>
  C2.  On every point on which the projection succeeds, \<^verbatim>\<open>evaluateError\<close> returns the
  2-component vector \<open>project(point) - measured\<close>; a requested Jacobian is the projection's
  derivative with respect to the point as the camera gave it (no sign change, no
  scaling), without a request nothing is written; nothing is printed.
\<close>

theorem evaluateError_success:
  assumes "project ext (camera f) point = Inr (uv, Dpoint)"
  shows "evaluateError ext f point H2 =
           \<lparr>H2_written = (if H2 then Some Dpoint else None), cout = [],
            returned = Inr (vector (Point2_minus uv (measured f)))\<rparr>
         \<and> length (vector (Point2_minus uv (measured f))) = 2"
proof -
  obtain u v where uv: "Point2_minus uv (measured f) = Point2 u v"
    by (cases "Point2_minus uv (measured f)")
  show ?thesis using assms uv by (simp add: evaluateError_def)
qed

text \<open>The spec's scenario: unit focal length, measurement \<open>(0,0)\<close>, point \<open>(1,1,5)\<close>, residual
  \<open>(0.2, 0.2)\<close>.\<close>

theorem evaluateError_success_witness:
  "project (scene True) (camera (scene_factor None False False)) (Point3 1 1 5)
     = Inr (Point2 (1 / 5) (1 / 5),
         map (map Finite) [[1 / 5, 0, - (1 / 25)], [0, 1 / 5, - (1 / 25)]])
   \<and> evaluateError (scene True) (scene_factor None False False) (Point3 1 1 5) True
     = \<lparr>H2_written = Some (map (map Finite) [[1 / 5, 0, - (1 / 25)], [0, 1 / 5, - (1 / 25)]]),
        cout = [], returned = Inr [Finite (1 / 5), Finite (1 / 5)]\<rparr>"
  using evaluateError_success [OF scene_project_front, of True None False False True]
    scene_project_front [of True None False False]
  by (simp add: scene_factor_fields)

text \<open>
  The fallback \<^verbatim>\<open>ones(2) * 2.0 * fx\<close>: both components are the double product of 2 and
  \<open>fx\<close>.  That product is finite exactly when \<open>fx\<close> is finite and twice its value stays
  below the overflow threshold, which is so whenever \<open>fx\<close> is at most \<^verbatim>\<open>DBL_MAX / 2\<close> in
  magnitude.
\<close>

lemma DBL_MAX_below_threshold: "DBL_MAX < overflow_threshold"
proof -
  have "(2::real) ^ 971 = 2 * 2 ^ 970"
    by simp
  moreover have "(0::real) < 2 ^ 970"
    by simp
  ultimately show ?thesis
    unfolding DBL_MAX_def overflow_threshold_def by linarith
qed

lemma two_below_threshold: "\<not> overflow_threshold \<le> \<bar>2::real\<bar>"
proof -
  have "(2::real) ^ 1024 = 2 ^ 970 * 2 ^ 54"
    by (simp flip: power_add)
  moreover have "(1::real) \<le> 2 ^ 970"
    by simp
  moreover have "(2::real) ^ 54 = 18014398509481984"
    by simp
  ultimately have "(3::real) \<le> 2 ^ 1024 - 2 ^ 970"
    by (simp add: algebra_simps)
  then show ?thesis
    by (simp add: overflow_threshold_def)
qed

lemma fallback_value:
  "Vector_times (Vector_times (ones 2) (Finite 2)) d
     = [double_times (Finite 2) d, double_times (Finite 2) d]"
  using two_below_threshold
  by (simp add: ones_def Vector_times_def numeral_2_eq_2 double_of_exact_def)

lemma twice_finite:
  assumes "\<bar>a\<bar> \<le> DBL_MAX / 2"
  shows "double_times (Finite 2) (Finite a) = Finite (2 * a)"
proof -
  have "\<bar>2 * a\<bar> \<le> DBL_MAX"
    using assms by (simp add: abs_mult)
  then have "\<not> overflow_threshold \<le> \<bar>2 * a\<bar>"
    using DBL_MAX_below_threshold by linarith
  then show ?thesis
    by (simp add: double_of_exact_def)
qed

lemma overflow_threshold_pos: "0 < overflow_threshold"
  using two_below_threshold by simp

lemma twice_isfinite_iff:
  "isfinite (double_times (Finite 2) d)
     \<longleftrightarrow> (\<exists>a. d = Finite a \<and> \<bar>2 * a\<bar> < overflow_threshold)"
proof (cases d)
  case (Finite a)
  show ?thesis
  proof (cases "overflow_threshold \<le> \<bar>2 * a\<bar>")
    case True
    then have "0 < \<bar>2 * a\<bar>"
      using overflow_threshold_pos by linarith
    then have nz: "2 * a \<noteq> 0"
      by simp
    have "double_times (Finite 2) d = infinity_of_sign (2 * a)"
      using Finite True by (simp add: double_of_exact_def)
    then have "\<not> isfinite (double_times (Finite 2) d)"
      using nz by (simp add: infinity_of_sign_def)
    moreover have "\<not> (\<exists>b. d = Finite b \<and> \<bar>2 * b\<bar> < overflow_threshold)"
      using Finite True by simp
    ultimately show ?thesis
      by blast
  next
    case False
    then have "double_times (Finite 2) d = Finite (2 * a)"
      using Finite by (simp add: double_of_exact_def)
    moreover have "\<exists>b. d = Finite b \<and> \<bar>2 * b\<bar> < overflow_threshold"
      using Finite False by simp
    ultimately show ?thesis
      by simp
  qed
qed (simp_all add: infinity_of_sign_def)

lemma Z_2x3_value:
  "Z_2x3 = [[Finite 0, Finite 0, Finite 0], [Finite 0, Finite 0, Finite 0]]"
  by (simp add: Z_2x3_def zeros_def numeral_2_eq_2 numeral_3_eq_3)

lemma two_le_DBL_MAX: "2 \<le> DBL_MAX"
proof -
  have "(2::real) ^ 1024 = 2 ^ 971 * 2 ^ 53"
    by (simp flip: power_add)
  moreover have "(1::real) \<le> 2 ^ 971"
    by simp
  moreover have "(2::real) ^ 53 = 9007199254740992"
    by simp
  ultimately have "(2::real) \<le> 2 ^ 1024 - 2 ^ 971"
    by (simp add: algebra_simps)
  then show ?thesis
    by (simp add: DBL_MAX_def)
qed

lemma evaluateError_behind_value:
  assumes "project ext (camera f) point = Inl (CheiralityException w)"
    and "\<not> throwCheirality f"
  shows "returned (evaluateError ext f point H2)
           = Inr [double_times (Finite 2) (calibration_fx ext (camera f)),
                  double_times (Finite 2) (calibration_fx ext (camera f))]"
  using assms by (simp add: evaluateError_def fallback_value)

text \<open>
  C3, as amended.  On every point for which the projection raises \<^verbatim>\<open>CheiralityException\<close>
  (the point is behind the camera), a factor with both flags false, whose camera has a
  finite focal length \<open>fx\<close> of magnitude at most \<^verbatim>\<open>DBL_MAX / 2\<close>, returns the vector whose two
  components are the finite double \<open>2 * fx\<close>; a requested Jacobian is the zero 2x3 matrix,
  and nothing is printed.
\<close>

theorem evaluateError_behind_default:
  assumes "project ext (camera f) point = Inl (CheiralityException w)"
    and "\<not> throwCheirality f" and "\<not> verboseCheirality f"
    and "calibration_fx ext (camera f) = Finite fx" and "\<bar>fx\<bar> \<le> DBL_MAX / 2"
  shows "evaluateError ext f point H2 =
           \<lparr>H2_written = (if H2 then Some [[Finite 0, Finite 0, Finite 0],
                                            [Finite 0, Finite 0, Finite 0]]
                          else None),
            cout = [],
            returned = Inr [Finite (2 * fx), Finite (2 * fx)]\<rparr>
         \<and> isfinite (Finite (2 * fx))"
  using assms(1-4) twice_finite [OF assms(5)]
  by (simp add: evaluateError_def Z_2x3_value fallback_value)

text \<open>The spec's scenario: unit focal length and the point \<open>(0,0,-5)\<close>.\<close>

theorem evaluateError_behind_default_witness:
  "project (scene True) (camera (scene_factor None False False)) (Point3 0 0 (- 5))
     = Inl (CheiralityException ''CheiralityException'')
   \<and> \<not> throwCheirality (scene_factor None False False)
   \<and> \<not> verboseCheirality (scene_factor None False False)
   \<and> calibration_fx (scene True) (camera (scene_factor None False False)) = Finite 1
   \<and> \<bar>1::real\<bar> \<le> DBL_MAX / 2
   \<and> evaluateError (scene True) (scene_factor None False False) (Point3 0 0 (- 5)) True
     = \<lparr>H2_written = Some [[Finite 0, Finite 0, Finite 0], [Finite 0, Finite 0, Finite 0]],
        cout = [], returned = Inr [Finite 2, Finite 2]\<rparr>"
proof -
  let ?f = "scene_factor None False False"
  have t: "\<not> throwCheirality ?f" and v: "\<not> verboseCheirality ?f"
    by (simp_all add: scene_factor_fields)
  have fx: "calibration_fx (scene True) (camera ?f) = Finite 1"
    by (simp add: scene_factor_fields scene_fields)
  have small: "\<bar>1::real\<bar> \<le> DBL_MAX / 2"
    using two_le_DBL_MAX by simp
  show ?thesis
    using evaluateError_behind_default [OF scene_project_behind t v fx small, where ?H2.0 = True]
      scene_project_behind [of True None False False] t v fx small
    by simp
qed

text \<open>
  C3 as stated (a finite residual for every camera) does not hold: the header multiplies
  by a focal length it never checks.  With the finite focal length \<open>2^1023\<close>, both flags
  false and the point \<open>(0,0,-5)\<close> behind the camera, the product \<open>2.0 * fx\<close> overflows and
  both components of the returned vector are \<open>+infinity\<close>.
\<close>

theorem evaluateError_behind_overflow_counterexample:
  "project (scene True) (camera ((scene_factor None False False)\<lparr>camera := 2 ^ 1023\<rparr>))
       (Point3 0 0 (- 5))
     = Inl (CheiralityException ''CheiralityException'')
   \<and> \<not> throwCheirality ((scene_factor None False False)\<lparr>camera := 2 ^ 1023\<rparr>)
   \<and> \<not> verboseCheirality ((scene_factor None False False)\<lparr>camera := 2 ^ 1023\<rparr>)
   \<and> calibration_fx (scene True) (camera ((scene_factor None False False)\<lparr>camera := 2 ^ 1023\<rparr>))
       = Finite (2 ^ 1023)
   \<and> returned (evaluateError (scene True) ((scene_factor None False False)\<lparr>camera := 2 ^ 1023\<rparr>)
                 (Point3 0 0 (- 5)) True)
       = Inr [PlusInfinity, PlusInfinity]
   \<and> \<not> isfinite PlusInfinity"
proof -
  let ?f = "(scene_factor None False False)\<lparr>camera := 2 ^ 1023\<rparr>"
  have p: "project (scene True) (camera ?f) (Point3 0 0 (- 5))
             = Inl (CheiralityException ''CheiralityException'')"
    by (simp add: scene_def)
  have t: "\<not> throwCheirality ?f" and v: "\<not> verboseCheirality ?f"
    by (simp_all add: scene_factor_fields)
  have fx: "calibration_fx (scene True) (camera ?f) = Finite (2 ^ 1023)"
    by (simp add: scene_fields)
  have "(2::real) * 2 ^ 1023 = 2 ^ 1024"
    by simp
  moreover have "(0::real) \<le> 2 ^ 970"
    by simp
  ultimately have over: "overflow_threshold \<le> \<bar>(2::real) * 2 ^ 1023\<bar>"
    by (simp add: overflow_threshold_def)
  have inf: "double_times (Finite 2) (Finite (2 ^ 1023)) = PlusInfinity"
    using over by (simp add: double_of_exact_def infinity_of_sign_def)
  show ?thesis
    using evaluateError_behind_value [OF p t, of True] p t v fx inf
    by simp
qed

text \<open>
  C4.  With \<^verbatim>\<open>throwCheirality_\<close> set, \<^verbatim>\<open>evaluateError\<close> on a point for which the projection
  raises \<^verbatim>\<open>CheiralityException\<close> throws that exception and returns no vector.  The
  statements before the \<^verbatim>\<open>throw\<close> have run: a requested Jacobian holds the zero 2x3 matrix,
  and with \<^verbatim>\<open>verboseCheirality_\<close> also set the line naming the factor's key has been
  printed.  The factor holds its one key, as every constructed factor does.
\<close>

theorem evaluateError_behind_rethrow:
  assumes "project ext (camera f) point = Inl (CheiralityException w)"
    and "throwCheirality f"
    and "keys f = [j]"
  shows "evaluateError ext f point H2 =
           \<lparr>H2_written = (if H2 then Some [[Finite 0, Finite 0, Finite 0],
                                            [Finite 0, Finite 0, Finite 0]]
                          else None),
            cout = (if verboseCheirality f
                    then w @ '': Landmark '' @ DefaultKeyFormatter ext j
                           @ '' moved behind camera'' @ endl
                    else []),
            returned = Inl (CheiralityException w)\<rparr>"
  using assms
  by (simp add: evaluateError_def Z_2x3_value key_def)

theorem evaluateError_behind_rethrow_witness:
  "project (scene True) (camera (scene_factor None True True)) (Point3 0 0 (- 5))
     = Inl (CheiralityException ''CheiralityException'')
   \<and> throwCheirality (scene_factor None True True)
   \<and> keys (scene_factor None True True) = [7]
   \<and> evaluateError (scene True) (scene_factor None True True) (Point3 0 0 (- 5)) True
     = \<lparr>H2_written = Some [[Finite 0, Finite 0, Finite 0], [Finite 0, Finite 0, Finite 0]],
        cout = ''CheiralityException: Landmark x7 moved behind camera'' @ endl,
        returned = Inl (CheiralityException ''CheiralityException'')\<rparr>"
  using evaluateError_behind_rethrow [OF scene_project_behind, of None True True 7 True True]
    scene_project_behind [of True None True True]
  by (simp add: scene_factor_fields scene_fields)

subsection \<open>Construction\<close>

text \<open>
  C8.  The constructor throws exactly when a noise model is given whose dimension is not
  2, and what it throws is \<^verbatim>\<open>std::invalid_argument\<close>; in that case the result holds no
  object.  With no noise model, or one of dimension 2, it returns the factor with the
  given camera, measurement, noise model, key and flags, and unallocated scratch members.
\<close>

theorem TriangulationFactor_new_fails_iff:
  "TriangulationFactor_new ext cam z model pointKey throwC verboseC =
     (if \<exists>m. model = Some m \<and> dim ext m \<noteq> 2
      then Inl (invalid_argument
             ''TriangulationFactor must be created with 2-dimensional noise model.'')
      else Inr \<lparr>noiseModel = model, keys = [pointKey], camera = cam, measured = z,
                 throwCheirality = throwC, verboseCheirality = verboseC,
                 scratch_Ab = VerticalBlockMatrix_empty, scratch_A = [], scratch_b = []\<rparr>)"
  by (cases model) (simp_all add: TriangulationFactor_new_def)

text \<open>In the scene: a 3-dimensional noise model is refused, a 2-dimensional one and none
  are accepted.\<close>

theorem TriangulationFactor_new_fails_iff_witness:
  "TriangulationFactor_new (scene True) 1 (Point2 0 0) (Some (Isotropic 3 1)) 7 False False
     = Inl (invalid_argument
         ''TriangulationFactor must be created with 2-dimensional noise model.'')
   \<and> TriangulationFactor_new (scene True) 1 (Point2 0 0) (Some (Isotropic 2 1)) 7 False False
     = Inr (scene_factor (Some (Isotropic 2 1)) False False)
   \<and> TriangulationFactor_new (scene True) 1 (Point2 0 0) None 7 False False
     = Inr (scene_factor None False False)"
  using TriangulationFactor_new_fails_iff
          [of "scene True" 1 "Point2 0 0" "Some (Isotropic 3 1)" 7 False False]
        TriangulationFactor_new_fails_iff
          [of "scene True" 1 "Point2 0 0" "Some (Isotropic 2 1)" 7 False False]
        TriangulationFactor_new_fails_iff
          [of "scene True" 1 "Point2 0 0" None 7 False False]
  by (simp add: scene_fields scene_factor_def)

subsection \<open>linearize\<close>

text \<open>The allocation touches the scratch members only, and afterwards the block matrix
  has its two rows and two blocks.  The constructor leaves the scratch members
  unallocated and \<^verbatim>\<open>linearize\<close> keeps their shape, so the shape holds for every factor
  that was constructed and then only linearized.\<close>

lemma key_single: "keys f = [j] \<Longrightarrow> key f = j"
  by (simp add: key_def)

lemma allocate_fields:
  "noiseModel (allocate f) = noiseModel f" "keys (allocate f) = keys f"
  "camera (allocate f) = camera f" "measured (allocate f) = measured f"
  "throwCheirality (allocate f) = throwCheirality f"
  "verboseCheirality (allocate f) = verboseCheirality f"
  "key (allocate f) = key f"
  by (simp_all add: allocate_def key_def)

lemma allocate_blocks:
  "scratch_shaped f \<Longrightarrow>
     rows (scratch_Ab (allocate f)) = 2 \<and> length (blocks (scratch_Ab (allocate f))) = 2"
  by (auto simp: scratch_shaped_def allocate_def VerticalBlockMatrix_sized_def)

lemma scratch_shaped_allocate: "scratch_shaped f \<Longrightarrow> scratch_shaped (allocate f)"
  by (auto simp: scratch_shaped_def allocate_def VerticalBlockMatrix_sized_def)

lemma set_both_blocks:
  assumes "rows M = 2" and "length (blocks M) = 2"
  shows "set_block (set_block M 0 B0) 1 B1 = \<lparr>rows = 2, blocks = [B0, B1]\<rparr>"
proof -
  from assms(2) obtain p q where pq: "blocks M = [p, q]"
    by (cases "blocks M"; cases "tl (blocks M)"; auto)
  show ?thesis using assms(1) pq by (cases M) (simp add: set_block_def)
qed

lemma scratch_shaped_new:
  "TriangulationFactor_new ext cam z model pointKey throwC verboseC = Inr f \<Longrightarrow>
     scratch_shaped f \<and> keys f = [pointKey] \<and> key f = pointKey"
  by (auto simp: TriangulationFactor_new_def scratch_shaped_def VerticalBlockMatrix_empty_def
        key_def split: option.splits if_splits)

lemma scratch_shaped_scene_factor: "scratch_shaped (scene_factor model tc vc)"
  by (simp add: scratch_shaped_def scene_factor_def VerticalBlockMatrix_empty_def)

lemma scratch_shaped_linearize:
  assumes "scratch_shaped f"
  shows "scratch_shaped (self (linearize ext f x))"
proof (cases "active ext f x")
  case False
  then show ?thesis using assms by (simp add: linearize_def)
next
  case True
  note act = this
  show ?thesis
  proof (cases "x (key f)")
    case None
    then show ?thesis
      using act scratch_shaped_allocate [OF assms]
      by (simp add: linearize_def Values_at_def allocate_fields)
  next
    case (Some point)
    note pt = this
    show ?thesis
    proof (cases "project ext (camera f) point")
      case (Inl e)
      then show ?thesis
        using act pt scratch_shaped_allocate [OF assms]
        by (simp add: linearize_def Values_at_def allocate_fields)
    next
      case (Inr r)
      obtain uv Dpoint where r: "r = (uv, Dpoint)" by (cases r)
      obtain A1 b1 where w: "(case noiseModel f of
                None \<Rightarrow> (Dpoint, Vector_uminus (vector (Point2_minus uv (measured f))))
              | Some m \<Rightarrow> WhitenSystem ext m Dpoint
                           (Vector_uminus (vector (Point2_minus uv (measured f))))) = (A1, b1)"
        by (cases "(case noiseModel f of
                None \<Rightarrow> (Dpoint, Vector_uminus (vector (Point2_minus uv (measured f))))
              | Some m \<Rightarrow> WhitenSystem ext m Dpoint
                           (Vector_uminus (vector (Point2_minus uv (measured f)))))")
      have "rows (scratch_Ab (allocate f)) = 2 \<and> length (blocks (scratch_Ab (allocate f))) = 2"
        by (rule allocate_blocks [OF assms])
      then show ?thesis
        using act pt Inr r w
        by (simp add: linearize_def Values_at_def allocate_fields Let_def scratch_shaped_def
              set_block_def)
    qed
  qed
qed

text \<open>\<^verbatim>\<open>linearize\<close> writes the scratch members only.\<close>

lemma linearize_frame:
  "noiseModel (self (linearize ext f x)) = noiseModel f
   \<and> keys (self (linearize ext f x)) = keys f
   \<and> camera (self (linearize ext f x)) = camera f
   \<and> measured (self (linearize ext f x)) = measured f
   \<and> throwCheirality (self (linearize ext f x)) = throwCheirality f
   \<and> verboseCheirality (self (linearize ext f x)) = verboseCheirality f"
  by (simp add: linearize_def Let_def allocate_fields case_prod_beta
        split: sum.splits option.splits)

text \<open>An exception of \<^verbatim>\<open>project\<close> leaves \<^verbatim>\<open>linearize\<close> as it is, whatever the flags are.\<close>

lemma linearize_propagates:
  assumes "active ext f x" and "x (key f) = Some point"
    and "project ext (camera f) point = Inl e"
  shows "linearize ext f x = \<lparr>self = allocate f, projections = 1, result = Inl e\<rparr>"
  using assms by (simp add: linearize_def Values_at_def allocate_fields)

text \<open>
  C5.  For an active values assignment that holds the factor's key at a point on which
  the projection succeeds, \<^verbatim>\<open>linearize\<close> calls \<^verbatim>\<open>project\<close> once; from its one result \<open>(uv,
  Dpoint)\<close> it takes \<open>A = Dpoint\<close> and \<open>b = -(uv - measured)\<close>; with a noise model the pair is
  replaced by \<^verbatim>\<open>WhitenSystem(A, b)\<close>, without one it is left as it is; and the result is a
  \<^verbatim>\<open>JacobianFactor\<close> on the factor's one key whose block 0 is \<open>A\<close> and whose block 1 is the
  column \<open>b\<close>.  The scratch members hold the same \<open>A\<close>, \<open>b\<close> and blocks afterwards.
\<close>

theorem linearize_success:
  assumes "active ext f x" and "keys f = [j]" and "x j = Some point"
    and "project ext (camera f) point = Inr (uv, Dpoint)"
    and "scratch_shaped f"
    and "W = (case noiseModel f of
                None \<Rightarrow> (Dpoint, Vector_uminus (vector (Point2_minus uv (measured f))))
              | Some m \<Rightarrow> WhitenSystem ext m Dpoint
                           (Vector_uminus (vector (Point2_minus uv (measured f)))))"
  shows "linearize ext f x =
           \<lparr>self = f\<lparr>scratch_Ab := \<lparr>rows = 2, blocks = [fst W, column (snd W)]\<rparr>,
                      scratch_A := fst W, scratch_b := snd W\<rparr>,
            projections = 1,
            result = Inr (Some \<lparr>jacobian_keys = [j],
                                jacobian_Ab =
                                  \<lparr>rows = 2, blocks = [fst W, column (snd W)]\<rparr>\<rparr>)\<rparr>"
proof -
  obtain A1 b1 where W: "W = (A1, b1)"
    by (cases W)
  have whitened: "(case noiseModel f of
                None \<Rightarrow> (Dpoint, Vector_uminus (vector (Point2_minus uv (measured f))))
              | Some m \<Rightarrow> WhitenSystem ext m Dpoint
                           (Vector_uminus (vector (Point2_minus uv (measured f))))) = (A1, b1)"
    using assms(6) W by simp
  have sb: "set_block (set_block (scratch_Ab (allocate f)) 0 A1) (Suc 0) (column b1)
              = \<lparr>rows = 2, blocks = [A1, column b1]\<rparr>"
    using allocate_blocks [OF assms(5)]
      set_both_blocks [of "scratch_Ab (allocate f)" A1 "column b1"]
    by simp
  have upd: "(allocate f)\<lparr>scratch_Ab := M, scratch_A := P, scratch_b := q\<rparr>
              = f\<lparr>scratch_Ab := M, scratch_A := P, scratch_b := q\<rparr>" for M P q
    by (simp add: allocate_def)
  show ?thesis
    using assms(1-4) key_single [OF assms(2)]
    by (simp add: linearize_def Let_def Values_at_def allocate_fields whitened sb upd
          JacobianFactor_of_def W)
qed

text \<open>The scenario's camera with an isotropic noise model of standard deviation 2: the
  Jacobian and the right-hand side of the point \<open>(1,1,5)\<close> are halved.\<close>

theorem linearize_success_witness:
  "active (scene True) (scene_factor (Some (Isotropic 2 2)) False False) [7 \<mapsto> Point3 1 1 5]
   \<and> keys (scene_factor (Some (Isotropic 2 2)) False False) = [7]
   \<and> [7 \<mapsto> Point3 1 1 5] (7::nat) = Some (Point3 1 1 5)
   \<and> project (scene True) (camera (scene_factor (Some (Isotropic 2 2)) False False))
       (Point3 1 1 5)
       = Inr (Point2 (1 / 5) (1 / 5),
           map (map Finite) [[1 / 5, 0, - (1 / 25)], [0, 1 / 5, - (1 / 25)]])
   \<and> scratch_shaped (scene_factor (Some (Isotropic 2 2)) False False)
   \<and> projections (linearize (scene True) (scene_factor (Some (Isotropic 2 2)) False False)
            [7 \<mapsto> Point3 1 1 5]) = 1
   \<and> result (linearize (scene True) (scene_factor (Some (Isotropic 2 2)) False False)
            [7 \<mapsto> Point3 1 1 5])
       = Inr (Some \<lparr>jacobian_keys = [7],
                    jacobian_Ab =
                      \<lparr>rows = 2,
                       blocks = [map (map Finite) [[1 / 10, 0, - (1 / 50)], [0, 1 / 10, - (1 / 50)]],
                                 map (map Finite) [[- (1 / 10)], [- (1 / 10)]]]\<rparr>\<rparr>)"
proof -
  let ?f = "scene_factor (Some (Isotropic 2 2)) False False"
  let ?x = "[7 \<mapsto> Point3 1 1 5] :: Values"
  let ?W = "(map (map Finite) [[1 / 10, 0, - (1 / 50)], [0, 1 / 10, - (1 / 50)]],
             map Finite [- (1 / 10), - (1 / 10)])
              :: Matrix \<times> Vector"
  have a: "active (scene True) ?f ?x"
    by (simp add: scene_fields)
  have ks: "keys ?f = [7]"
    by (simp add: scene_factor_fields)
  have k: "?x 7 = Some (Point3 1 1 5)"
    by simp
  have s: "scratch_shaped ?f"
    by (rule scratch_shaped_scene_factor)
  have w: "?W = (case noiseModel ?f of
                None \<Rightarrow> (map (map Finite) [[1 / 5, 0, - (1 / 25)], [0, 1 / 5, - (1 / 25)]],
                          Vector_uminus (vector (Point2_minus (Point2 (1 / 5) (1 / 5)) (measured ?f))))
              | Some m \<Rightarrow> WhitenSystem (scene True) m
                           (map (map Finite) [[1 / 5, 0, - (1 / 25)], [0, 1 / 5, - (1 / 25)]])
                           (Vector_uminus (vector (Point2_minus (Point2 (1 / 5) (1 / 5)) (measured ?f)))))"
    by (simp add: scene_factor_fields scene_fields Vector_uminus_def)
  show ?thesis
    using a ks s scene_project_front [of True "Some (Isotropic 2 2)" False False]
    by (simp add: linearize_success [OF a ks k scene_project_front s w] scene_factor_fields
          column_def)
qed

text \<open>
  C6.  For a values assignment on which the factor is not active, \<^verbatim>\<open>linearize\<close> returns
  the null pointer: no exception, no \<^verbatim>\<open>JacobianFactor\<close>, no call of \<^verbatim>\<open>project\<close>, and the
  scratch members are as before (nothing is allocated or written).
\<close>

theorem linearize_inactive:
  assumes "\<not> active ext f x"
  shows "linearize ext f x = \<lparr>self = f, projections = 0, result = Inr None\<rparr>"
  using assms by (simp add: linearize_def)

theorem linearize_inactive_witness:
  "\<not> active (scene False) (scene_factor None False False) [7 \<mapsto> Point3 1 1 5]
   \<and> linearize (scene False) (scene_factor None False False) [7 \<mapsto> Point3 1 1 5]
       = \<lparr>self = scene_factor None False False, projections = 0, result = Inr None\<rparr>"
proof -
  have a: "\<not> active (scene False) (scene_factor None False False) [7 \<mapsto> Point3 1 1 5]"
    by (simp add: scene_fields)
  show ?thesis using linearize_inactive [OF a] a by simp
qed

text \<open>
  C7, as amended.  For a values assignment on which the factor is active and that does
  not hold the factor's one key, \<^verbatim>\<open>linearize\<close> throws the lookup failure of the values
  store for that key, as the store raised it; the scratch members have been allocated by
  then and \<^verbatim>\<open>project\<close> has not been called.
\<close>

theorem linearize_missing_key:
  assumes "active ext f x" and "keys f = [j]" and "x j = None"
  shows "linearize ext f x =
           \<lparr>self = allocate f, projections = 0,
            result = Inl (ValuesKeyDoesNotExist j)\<rparr>"
  using assms key_single [OF assms(2)]
  by (simp add: linearize_def Values_at_def allocate_fields)

theorem linearize_missing_key_witness:
  "active (scene True) (scene_factor None False False) Map.empty
   \<and> keys (scene_factor None False False) = [7]
   \<and> (Map.empty :: Values) 7 = None
   \<and> result (linearize (scene True) (scene_factor None False False) Map.empty)
       = Inl (ValuesKeyDoesNotExist 7)"
proof -
  have a: "active (scene True) (scene_factor None False False) Map.empty"
    by (simp add: scene_fields)
  have ks: "keys (scene_factor None False False) = [7]"
    by (simp add: scene_factor_fields)
  have k: "(Map.empty :: Values) 7 = None"
    by simp
  show ?thesis using linearize_missing_key [OF a ks k] a ks by simp
qed

text \<open>
  C7 as stated (every values store without the key makes \<^verbatim>\<open>linearize\<close> fail) does not
  hold: the activity test comes first.  On the empty store, for a factor that is not
  active, \<^verbatim>\<open>linearize\<close> returns the null pointer and throws nothing.
\<close>

theorem linearize_missing_key_inactive_counterexample:
  "keys (scene_factor None False False) = [7]
   \<and> (Map.empty :: Values) 7 = None
   \<and> linearize (scene False) (scene_factor None False False) Map.empty
       = \<lparr>self = scene_factor None False False, projections = 0, result = Inr None\<rparr>"
  by (simp add: linearize_def scene_fields scene_factor_fields)

text \<open>
  C1.  The claim (with both flags false, neither \<^verbatim>\<open>evaluateError\<close> nor \<^verbatim>\<open>linearize\<close> lets
  \<^verbatim>\<open>CheiralityException\<close> out) fails on \<^verbatim>\<open>linearize\<close>, whose call of \<^verbatim>\<open>project\<close> has no
  handler: for the scenario's factor with both flags false and the point \<open>(0,0,-5)\<close>,
  \<^verbatim>\<open>evaluateError\<close> returns \<open>(2, 2)\<close> and \<^verbatim>\<open>linearize\<close> throws \<^verbatim>\<open>CheiralityException\<close>.
\<close>

theorem linearize_behind_camera_throws:
  "\<not> throwCheirality (scene_factor None False False)
   \<and> \<not> verboseCheirality (scene_factor None False False)
   \<and> returned (evaluateError (scene True) (scene_factor None False False) (Point3 0 0 (- 5)) False)
       = Inr [Finite 2, Finite 2]
   \<and> result (linearize (scene True) (scene_factor None False False) [7 \<mapsto> Point3 0 0 (- 5)])
       = Inl (CheiralityException ''CheiralityException'')"
proof -
  let ?f = "scene_factor None False False"
  have a: "active (scene True) ?f [7 \<mapsto> Point3 0 0 (- 5)]"
    by (simp add: scene_fields)
  have k: "[7 \<mapsto> Point3 0 0 (- 5)] (key ?f) = Some (Point3 0 0 (- 5))"
    by (simp add: scene_factor_fields)
  have e: "returned (evaluateError (scene True) ?f (Point3 0 0 (- 5)) False) = Inr [Finite 2, Finite 2]"
    using evaluateError_behind_value [OF scene_project_behind, of None False False True False]
      twice_finite [of 1] two_le_DBL_MAX
    by (simp add: scene_factor_fields scene_fields)
  show ?thesis
    using e
    by (simp add: linearize_propagates [OF a k scene_project_behind] scene_factor_fields)
qed

subsection \<open>equals and clone\<close>

text \<open>
  C10.  When the other factor is not of the class \<^verbatim>\<open>This\<close> (the cast is null), \<^verbatim>\<open>equals\<close> is
  false for every tolerance, whatever the comparison of the base class says.
\<close>

theorem equals_other_type:
  assumes "dynamic_cast_This p = None"
  shows "\<not> equals ext f p tol"
  using assms by (simp add: equals_def)

text \<open>Here the base class is made to accept every factor, and \<^verbatim>\<open>equals\<close> is still false.\<close>

theorem equals_other_type_witness:
  "dynamic_cast_This (Other () :: (real, Isotropic, unit) NonlinearFactor) = None
   \<and> \<not> equals ((scene True)\<lparr>Base_equals := \<lambda>f p tol. True\<rparr>) (scene_factor None False False)
         (Other ()) default_tol"
proof -
  have c: "dynamic_cast_This (Other () :: (real, Isotropic, unit) NonlinearFactor) = None"
    by simp
  show ?thesis using equals_other_type [OF c] c by simp
qed

text \<open>Allocation returns a fresh address and keeps the objects that exist; a method
  called through one address leaves the objects at the other addresses as they are.\<close>

lemma clone_fresh:
  assumes "this < length h"
  shows "clone h this = (h @ [h ! this], length h)"
    and "snd (clone h this) \<noteq> this"
    and "fst (clone h this) ! this = h ! this"
    and "fst (clone h this) ! snd (clone h this) = h ! this"
  using assms by (simp_all add: clone_def nth_append)

lemma linearize_at_frame:
  assumes "a \<noteq> c"
  shows "fst (linearize_at ext h c x) ! a = h ! a"
  using assms by (simp add: linearize_at_def Let_def)

text \<open>
  C9.  \<^verbatim>\<open>clone()\<close> returns a new object, at an address other than the original's, with the
  same members (camera, measurement, keys, noise model, flags, scratch).  Where the
  comparisons of the base class, the camera and the measurement accept a value against
  itself at the default tolerance \<open>1e-9\<close>, the clone and the original are \<^verbatim>\<open>equals\<close>, each
  to the other.  Whatever a call of \<^verbatim>\<open>linearize\<close> on the clone does, for every values
  assignment, the original object (its scratch members \<^verbatim>\<open>Ab\<close>, \<^verbatim>\<open>A\<close>, \<^verbatim>\<open>b\<close> among the
  rest) is unchanged.
\<close>

theorem clone_independent:
  assumes "this < length h"
    and "Base_equals ext (h ! this) (This (h ! this)) default_tol"
    and "camera_equals ext (camera (h ! this)) (camera (h ! this)) default_tol"
    and "Point2_equals ext (measured (h ! this)) (measured (h ! this)) default_tol"
    and "clone h this = (h1, c)"
  shows "c \<noteq> this \<and> h1 ! this = h ! this \<and> h1 ! c = h ! this
         \<and> equals ext (h1 ! c) (This (h1 ! this)) default_tol
         \<and> equals ext (h1 ! this) (This (h1 ! c)) default_tol
         \<and> fst (linearize_at ext h1 c x) ! this = h ! this"
proof -
  have c: "c \<noteq> this" and orig: "h1 ! this = h ! this" and copy: "h1 ! c = h ! this"
    using clone_fresh(2-4) [OF assms(1)] assms(5) by simp_all
  have eq: "equals ext (h ! this) (This (h ! this)) default_tol"
    using assms(2-4) by (simp add: equals_def)
  have frame: "fst (linearize_at ext h1 c x) ! this = h1 ! this"
    using c by (intro linearize_at_frame) simp
  show ?thesis using c orig copy eq frame by simp
qed

text \<open>One factor on the heap, cloned, and the clone linearized at \<open>(1,1,5)\<close>: the clone's
  \<^verbatim>\<open>A\<close> now holds the Jacobian, the original is as it was.\<close>

theorem clone_independent_witness:
  "(0::nat) < length [scene_factor None False False]
   \<and> clone [scene_factor None False False] 0
       = ([scene_factor None False False, scene_factor None False False], 1)
   \<and> equals (scene True) (scene_factor None False False)
        (This (scene_factor None False False)) default_tol
   \<and> fst (linearize_at (scene True)
             [scene_factor None False False, scene_factor None False False] 1
             [7 \<mapsto> Point3 1 1 5]) ! 0 = scene_factor None False False
   \<and> scratch_A (fst (linearize_at (scene True)
             [scene_factor None False False, scene_factor None False False] 1
             [7 \<mapsto> Point3 1 1 5]) ! 1) = map (map Finite) [[1 / 5, 0, - (1 / 25)], [0, 1 / 5, - (1 / 25)]]"
proof -
  let ?f = "scene_factor None False False"
  have l: "(0::nat) < length [?f]" by simp
  have b: "Base_equals (scene True) ([?f] ! 0) (This ([?f] ! 0)) default_tol"
    by (simp add: scene_fields scene_Base_equals_def)
  have cam: "camera_equals (scene True) (camera ([?f] ! 0)) (camera ([?f] ! 0)) default_tol"
    by (simp add: scene_fields default_tol_def)
  have z: "Point2_equals (scene True) (measured ([?f] ! 0)) (measured ([?f] ! 0)) default_tol"
    by (simp add: scene_fields scene_factor_fields default_tol_def)
  have cl: "clone [?f] 0 = ([?f, ?f], 1)"
    by (simp add: clone_def)
  have a: "active (scene True) ?f [7 \<mapsto> Point3 1 1 5]"
    by (simp add: scene_fields)
  have k: "[7 \<mapsto> Point3 1 1 5] (key ?f) = Some (Point3 1 1 5)"
    by (simp add: scene_factor_fields)
  have lin: "scratch_A (self (linearize (scene True) ?f [7 \<mapsto> Point3 1 1 5]))
               = map (map Finite) [[1 / 5, 0, - (1 / 25)], [0, 1 / 5, - (1 / 25)]]"
    using a k scene_project_front [of True None False False]
    by (simp add: linearize_def Values_at_def allocate_fields scene_factor_fields Let_def)
  have upd: "scratch_A (fst (linearize_at (scene True) [?f, ?f] 1 [7 \<mapsto> Point3 1 1 5]) ! 1)
               = map (map Finite) [[1 / 5, 0, - (1 / 25)], [0, 1 / 5, - (1 / 25)]]"
    using lin by (simp add: linearize_at_def Let_def)
  show ?thesis
    using clone_independent [OF l b cam z cl, of "[7 \<mapsto> Point3 1 1 5]"] l cl upd
    by simp
qed

end
